theory Spec2Isabelle
  imports Complex_Main
begin

section \<open>Strings of the host language\<close>

text \<open>
  A JavaScript string is modelled as a \<^typ>\<open>string\<close> whose characters are the code units
  U+0000 .. U+00FF; code points above U+00FF are outside the model. In that range the
  white space and line terminator characters of ECMA-262 (what \<open>trim\<close> removes and
  what the numeric conversion skips) are TAB, LF, VT, FF, CR, SPACE and NBSP.
\<close>

definition is_js_whitespace :: "char \<Rightarrow> bool" where
  "is_js_whitespace c = (of_char c \<in> {9::nat, 10, 11, 12, 13, 32, 160})"

text \<open>\<open>String.prototype.trim\<close>.\<close>

definition trim :: "string \<Rightarrow> string" where
  "trim s = rev (dropWhile is_js_whitespace (rev (dropWhile is_js_whitespace s)))"

text \<open>
  \<open>s.split(sep)\<close> for a one-character separator: the pieces between the separators,
  never an empty list (\<open>"".split('/')\<close> is \<open>[""]\<close>).
\<close>

fun split_on :: "char \<Rightarrow> string \<Rightarrow> string list" where
  "split_on sep [] = [[]]"
| "split_on sep (c # cs) =
     (if c = sep then [] # split_on sep cs
      else (case split_on sep cs of
              [] \<Rightarrow> [[c]]
            | p # ps \<Rightarrow> (c # p) # ps))"

text \<open>
  Reading an array element that may be absent: \<open>parts[i]\<close> is \<open>undefined\<close>
  (\<open>None\<close>) past the end.
\<close>

definition element :: "'a list \<Rightarrow> nat \<Rightarrow> 'a option" where
  "element xs i = (if i < length xs then Some (xs ! i) else None)"

section \<open>Numbers of the host language\<close>

text \<open>
  A Number is NaN, an infinity, or a finite value. \<open>Num q\<close> stands for the finite
  double nearest to the rational \<open>q\<close>; the rounding of a finite value to its double is
  not modelled (it changes no integer below \<open>2^53\<close>), the overflow of a literal to an
  infinity is. The sign of zero is not modelled. The program looks at a Number in two
  ways only: whether it is NaN, and as an argument of \<open>new Date\<close>, which computes with
  it only where the rounding changes nothing.
\<close>

datatype js_number = NaN | Num rat | PosInf | NegInf

definition isNaN :: "js_number \<Rightarrow> bool" where
  "isNaN x = (x = NaN)"

definition is_finite_number :: "js_number \<Rightarrow> bool" where
  "is_finite_number x = (case x of Num q \<Rightarrow> True | _ \<Rightarrow> False)"

text \<open>
  A literal whose mathematical value reaches \<open>2^1024 - 2^970\<close> rounds to an infinity
  (round to nearest, ties to even).
\<close>

definition round_overflow :: "rat \<Rightarrow> js_number" where
  "round_overflow q =
     (if 2 ^ 1024 - 2 ^ 970 \<le> q then PosInf
      else if q \<le> - (2 ^ 1024 - 2 ^ 970) then NegInf
      else Num q)"

definition js_negate :: "js_number \<Rightarrow> js_number" where
  "js_negate x = (case x of NaN \<Rightarrow> NaN | Num q \<Rightarrow> Num (- q) | PosInf \<Rightarrow> NegInf | NegInf \<Rightarrow> PosInf)"

text \<open>\<open>x - 1\<close> on Numbers.\<close>

definition minus_one :: "js_number \<Rightarrow> js_number" where
  "minus_one x = (case x of Num q \<Rightarrow> Num (q - 1) | other \<Rightarrow> other)"

definition is_digit :: "char \<Rightarrow> bool" where
  "is_digit c = (48 \<le> (of_char c :: nat) \<and> (of_char c :: nat) \<le> 57)"

definition hex_digit_value :: "char \<Rightarrow> nat option" where
  "hex_digit_value c =
     (let n = (of_char c :: nat) in
      if 48 \<le> n \<and> n \<le> 57 then Some (n - 48)
      else if 97 \<le> n \<and> n \<le> 102 then Some (n - 87)
      else if 65 \<le> n \<and> n \<le> 70 then Some (n - 55)
      else None)"

text \<open>The value of a digit string in a base; \<open>None\<close> when a character is no digit of the base.\<close>

fun digits_value :: "nat \<Rightarrow> nat \<Rightarrow> string \<Rightarrow> nat option" where
  "digits_value base acc [] = Some acc"
| "digits_value base acc (c # cs) =
     (case hex_digit_value c of
        None \<Rightarrow> None
      | Some d \<Rightarrow> if d < base then digits_value base (base * acc + d) cs else None)"

text \<open>A non-empty digit string of the base, as a Number; anything else is NaN.\<close>

definition radix_literal :: "nat \<Rightarrow> string \<Rightarrow> js_number" where
  "radix_literal base ds =
     (if ds = [] then NaN
      else (case digits_value base 0 ds of
              None \<Rightarrow> NaN
            | Some n \<Rightarrow> round_overflow (of_nat n)))"

text \<open>
  The exponent part of a decimal literal: nothing, or \<open>e\<close>/\<open>E\<close>, an optional sign and
  at least one digit up to the end of the string.
\<close>

definition exponent_part :: "string \<Rightarrow> int option" where
  "exponent_part s =
     (case s of
        [] \<Rightarrow> Some 0
      | c # r \<Rightarrow>
          if c = CHR ''e'' \<or> c = CHR ''E'' then
            (let neg = (case r of [] \<Rightarrow> False | d # _ \<Rightarrow> d = CHR ''-'');
                 ds = (case r of [] \<Rightarrow> []
                       | d # r' \<Rightarrow> if d = CHR ''+'' \<or> d = CHR ''-'' then r' else r)
             in if ds = [] then None
                else (case digits_value 10 0 ds of
                        None \<Rightarrow> None
                      | Some n \<Rightarrow> Some (if neg then - int n else int n)))
          else None)"

text \<open>
  \<open>StrUnsignedDecimalLiteral\<close>: \<open>Infinity\<close>, or digits with an optional fraction and an
  optional exponent, at least one digit before or after the point.
\<close>

definition unsigned_decimal :: "string \<Rightarrow> js_number" where
  "unsigned_decimal s =
     (if s = ''Infinity'' then PosInf
      else
        (let ip = takeWhile is_digit s;
             r1 = dropWhile is_digit s;
             dot = (case r1 of [] \<Rightarrow> False | c # _ \<Rightarrow> c = CHR ''.'');
             fp = (if dot then takeWhile is_digit (tl r1) else []);
             r2 = (if dot then dropWhile is_digit (tl r1) else r1)
         in if ip = [] \<and> fp = [] then NaN
            else (case (digits_value 10 0 (ip @ fp), exponent_part r2) of
                    (Some m, Some e) \<Rightarrow>
                      (let k = e - int (length fp)
                       in round_overflow
                            (if 0 \<le> k then of_nat m * 10 ^ nat k
                             else of_nat m / 10 ^ nat (- k)))
                  | _ \<Rightarrow> NaN)))"

text \<open>
  \<open>StringToNumber\<close> of ECMA-262, which \<open>Number(s)\<close> and the unary \<open>+s\<close> apply to a
  string: white space is stripped from both ends; the empty string is 0; a hexadecimal,
  octal or binary literal carries no sign; a decimal literal may.
\<close>

definition StringToNumber :: "string \<Rightarrow> js_number" where
  "StringToNumber s =
     (let t = trim s in
      case t of
        [] \<Rightarrow> Num 0
      | c # r \<Rightarrow>
          if c = CHR ''0'' \<and> r \<noteq> [] \<and> (hd r = CHR ''x'' \<or> hd r = CHR ''X'') then radix_literal 16 (tl r)
          else if c = CHR ''0'' \<and> r \<noteq> [] \<and> (hd r = CHR ''o'' \<or> hd r = CHR ''O'') then radix_literal 8 (tl r)
          else if c = CHR ''0'' \<and> r \<noteq> [] \<and> (hd r = CHR ''b'' \<or> hd r = CHR ''B'') then radix_literal 2 (tl r)
          else if c = CHR ''+'' then unsigned_decimal r
          else if c = CHR ''-'' then js_negate (unsigned_decimal r)
          else unsigned_decimal t)"

text \<open>\<open>Number(v)\<close> for a string \<open>v\<close>.\<close>

definition Number :: "string \<Rightarrow> js_number" where
  "Number v = StringToNumber v"

text \<open>The unary \<open>+x\<close> where \<open>x\<close> is a string or \<open>undefined\<close>.\<close>

definition unary_plus :: "string option \<Rightarrow> js_number" where
  "unary_plus x = (case x of None \<Rightarrow> NaN | Some s \<Rightarrow> StringToNumber s)"

section \<open>Dates of the host language\<close>

text \<open>
  Time values are milliseconds since 1970-01-01T00:00:00Z; \<open>None\<close> is the time value
  NaN of an Invalid Date. Days are counted in the proleptic Gregorian calendar.
\<close>

definition msPerDay :: int where
  "msPerDay = 86400000"

text \<open>The day number of the civil date \<open>y-m-d\<close>, with \<open>m\<close> in 1..12.\<close>

definition days_from_civil :: "int \<Rightarrow> int \<Rightarrow> int \<Rightarrow> int" where
  "days_from_civil y m d =
     (let y' = (if m \<le> 2 then y - 1 else y);
          era = y' div 400;
          yoe = y' - era * 400;
          mp = (if 2 < m then m - 3 else m + 9);
          doy = (153 * mp + 2) div 5 + d - 1;
          doe = yoe * 365 + yoe div 4 - yoe div 100 + doy
      in era * 146097 + doe - 719468)"

text \<open>The civil date (year, month in 1..12, day of the month) of a day number.\<close>

definition civil_from_days :: "int \<Rightarrow> int \<times> int \<times> int" where
  "civil_from_days z =
     (let z' = z + 719468;
          era = z' div 146097;
          doe = z' - era * 146097;
          yoe = (doe - doe div 1460 + doe div 36524 - doe div 146096) div 365;
          doy = doe - (365 * yoe + yoe div 4 - yoe div 100);
          mp = (5 * doy + 2) div 153;
          d = doy - (153 * mp + 2) div 5 + 1;
          m = (if mp < 10 then mp + 3 else mp - 9)
      in (if m \<le> 2 then yoe + era * 400 + 1 else yoe + era * 400, m, d))"

text \<open>\<open>ToIntegerOrInfinity\<close> of a finite value: truncation towards zero.\<close>

definition ToInteger :: "rat \<Rightarrow> int" where
  "ToInteger q = (if 0 \<le> q then \<lfloor>q\<rfloor> else \<lceil>q\<rceil>)"

text \<open>
  \<open>MakeDay(year, month, date)\<close> on integers: months beyond 0..11 carry into the year,
  and the day of the month counts on from the first of that month, whatever its size.
\<close>

definition MakeDay :: "int \<Rightarrow> int \<Rightarrow> int \<Rightarrow> int" where
  "MakeDay y m dt = days_from_civil (y + m div 12) (m mod 12 + 1) 1 + dt - 1"

text \<open>\<open>TimeClip\<close>: a time value beyond 8.64e15 ms on either side of the epoch is NaN.\<close>

definition TimeClip :: "int \<Rightarrow> int option" where
  "TimeClip t = (if 8640000000000000 < \<bar>t\<bar> then None else Some t)"

text \<open>
  What the program cannot decide by itself: the identifiers \<open>nanoid()\<close> returns (the
  \<open>k\<close>-th call returns \<open>nanoid h k\<close>), the offset of the local time zone in ms at a
  local time, what \<open>Date.parse\<close> makes of a string that is not a date-only ISO
  string (ECMA-262 leaves that to the engine), and the time value of
  \<open>new Date(y, m, d)\<close> for finite arguments that are not all integers of at most
  \<open>2^52\<close> in size: there the result depends on how the literals and the subtraction
  \<open>month - 1\<close> round to doubles, which the model does not compute.
\<close>

record host =
  nanoid :: "nat \<Rightarrow> string"
  localTZA :: "int \<Rightarrow> int"
  engineDateParse :: "string \<Rightarrow> int option"
  engineDate :: "rat \<Rightarrow> rat \<Rightarrow> rat \<Rightarrow> int option"

text \<open>
  An integer of at most \<open>2^52\<close> in size: the literal it was read from, and that
  literal less one, are doubles, and the arithmetic on them is exact.
\<close>

definition exact_integer :: "rat \<Rightarrow> bool" where
  "exact_integer q = (of_int \<lfloor>q\<rfloor> = q \<and> \<bar>q\<bar> \<le> 2 ^ 52)"

text \<open>
  \<open>new Date(year, month, date)\<close>: an argument that is NaN or infinite gives an Invalid
  Date; a year that truncates to 0..99 means 1900 + year; the date is midnight local
  time, converted to UTC and clipped. The arithmetic is that of ECMA-262 on integers;
  for other finite arguments the host says what the doubles give.
\<close>

definition new_Date :: "host \<Rightarrow> js_number \<Rightarrow> js_number \<Rightarrow> js_number \<Rightarrow> int option" where
  "new_Date h year month date =
     (case (year, month, date) of
        (Num y, Num m, Num dt) \<Rightarrow>
          if exact_integer y \<and> exact_integer m \<and> exact_integer dt then
            (let yi = ToInteger y;
                 yr = (if 0 \<le> yi \<and> yi \<le> 99 then 1900 + yi else yi);
                 t = MakeDay yr (ToInteger m) (ToInteger dt) * msPerDay
             in TimeClip (t - localTZA h t))
          else engineDate h y m dt
      | _ \<Rightarrow> None)"

text \<open>The decimal digits of \<open>n\<close>, padded with zeros to the width \<open>w\<close>.\<close>

definition digit_char :: "nat \<Rightarrow> char" where
  "digit_char d = ''0123456789'' ! d"

fun pad_digits :: "nat \<Rightarrow> nat \<Rightarrow> string" where
  "pad_digits 0 n = []"
| "pad_digits (Suc w) n = pad_digits w (n div 10) @ [digit_char (n mod 10)]"

definition iso_year :: "int \<Rightarrow> string" where
  "iso_year y =
     (if 0 \<le> y \<and> y \<le> 9999 then pad_digits 4 (nat y)
      else if y < 0 then CHR ''-'' # pad_digits 6 (nat (- y))
      else CHR ''+'' # pad_digits 6 (nat y))"

text \<open>Everything the program raises.\<close>

datatype idb_error = ConstraintError

datatype error =
    NoData
  | InvalidHeaders
  | InvalidType string string
  | RangeError
  | TypeError
  | StoreFailed idb_error
  | NotFound string
  | CannotUpdate string
  | DecodeError string

text \<open>
  \<open>date.toISOString().split('T')[0]\<close>: the UTC date of the time value as \<open>YYYY-MM-DD\<close>
  (a year outside 0..9999 is written with a sign and six digits); \<open>toISOString\<close> throws
  a RangeError on an Invalid Date.
\<close>

definition toISOString_date :: "int option \<Rightarrow> error + string" where
  "toISOString_date tv =
     (case tv of
        None \<Rightarrow> Inl RangeError
      | Some t \<Rightarrow>
          (case civil_from_days (t div msPerDay) of
             (y, m, d) \<Rightarrow>
               Inr (iso_year y @ ''-'' @ pad_digits 2 (nat m) @ ''-'' @ pad_digits 2 (nat d))))"

definition days_in_month :: "int \<Rightarrow> int \<Rightarrow> int" where
  "days_in_month y m =
     (if m = 2 then (if y mod 4 = 0 \<and> (y mod 100 \<noteq> 0 \<or> y mod 400 = 0) then 29 else 28)
      else if m = 4 \<or> m = 6 \<or> m = 9 \<or> m = 11 then 30
      else 31)"

definition number_of_digits :: "string \<Rightarrow> int option" where
  "number_of_digits ds = (if ds \<noteq> [] \<and> list_all is_digit ds then map_option int (digits_value 10 0 ds) else None)"

text \<open>
  The date-only form of the ECMA-262 date-time string format, \<open>YYYY-MM-DD\<close> or
  \<open>+YYYYYY-MM-DD\<close> / \<open>-YYYYYY-MM-DD\<close>, of a calendar date within the range of time
  values: its time value, midnight UTC. Every engine parses these alike.
\<close>

definition iso_calendar_date :: "string \<Rightarrow> int option" where
  "iso_calendar_date s =
     (let signed = (case s of [] \<Rightarrow> False | c # _ \<Rightarrow> c = CHR ''+'' \<or> c = CHR ''-'');
          neg = (case s of [] \<Rightarrow> False | c # _ \<Rightarrow> c = CHR ''-'');
          ys = (if signed then take 6 (tl s) else take 4 s);
          r = (if signed then drop 7 s else drop 4 s)
      in if length ys = (if signed then 6 else 4) \<and> length r = 6
            \<and> r ! 0 = CHR ''-'' \<and> r ! 3 = CHR ''-''
         then (case (number_of_digits ys, number_of_digits (take 2 (drop 1 r)),
                     number_of_digits (drop 4 r)) of
                 (Some y, Some m, Some d) \<Rightarrow>
                   if (neg \<and> y = 0) \<or> m < 1 \<or> 12 < m \<or> d < 1 \<or> days_in_month (if neg then - y else y) m < d
                   then None
                   else TimeClip (days_from_civil (if neg then - y else y) m d * msPerDay)
               | _ \<Rightarrow> None)
         else None)"

text \<open>\<open>Date.parse(s)\<close>; \<open>None\<close> is NaN.\<close>

definition Date_parse :: "host \<Rightarrow> string \<Rightarrow> int option" where
  "Date_parse h s =
     (case iso_calendar_date s of
        Some t \<Rightarrow> Some t
      | None \<Rightarrow> engineDateParse h s)"

section \<open>Rows\<close>

text \<open>
  An object as the CSV decoder builds it (papaparse with \<open>header: true\<close>): its own
  keys in the order \<open>Object.keys\<close> lists them, each with its string value. An object
  has every key once. The keys of a decoded record are the header names of the file;
  the value under \<open>__parsed_extra\<close> is never read by the program.
\<close>

type_synonym js_object = "(string \<times> string) list"

definition Object_keys :: "js_object \<Rightarrow> string list" where
  "Object_keys obj = map fst obj"

text \<open>\<open>obj[k]\<close>; \<open>None\<close> is \<open>undefined\<close>.\<close>

definition property :: "js_object \<Rightarrow> string \<Rightarrow> string option" where
  "property obj k = map_of obj k"

text \<open>\<open>obj[k] = v\<close>: an existing key keeps its place, a new key goes last.\<close>

fun set_property :: "string \<Rightarrow> string \<Rightarrow> js_object \<Rightarrow> js_object" where
  "set_property k v [] = [(k, v)]"
| "set_property k v ((k', v') # obj) =
     (if k' = k then (k, v) # obj else (k', v') # set_property k v obj)"

text \<open>\<open>{ ...target, ...src }\<close>: the properties of \<open>src\<close> are assigned in their order.\<close>

definition spread :: "js_object \<Rightarrow> js_object \<Rightarrow> js_object" where
  "spread target src = foldl (\<lambda>obj (k, v). set_property k v obj) target src"

text \<open>\<open>x || ""\<close> for a string or \<open>undefined\<close>.\<close>

definition or_empty :: "string option \<Rightarrow> string" where
  "or_empty x = (case x of None \<Rightarrow> [] | Some s \<Rightarrow> s)"

text \<open>The interface \<open>ParsedRow\<close> (utils/parseCSV.ts).\<close>

record ParsedRow =
  row_id :: string
  Account_Type :: string
  Account_Number :: string
  Transaction_Date :: string
  Cheque_Number :: string
  Description_1 :: string
  Description_2 :: string
  CAD :: string
  USD :: string

text \<open>The interface \<open>DBTransaction\<close>, the persisted shape.\<close>

record DBTransaction =
  tx_id :: string
  accountType :: string
  accountNumber :: string
  transactionDate :: string
  chequeNumber :: string
  description1 :: string
  description2 :: string
  cadAmount :: string
  usdAmount :: string

definition REQUIRED_HEADERS :: "string list" where
  "REQUIRED_HEADERS =
     [''Account Type'', ''Account Number'', ''Transaction Date'', ''Cheque Number'',
      ''Description 1'', ''Description 2'', ''CAD$'', ''USD$'']"

definition convertToDBFormat :: "ParsedRow \<Rightarrow> DBTransaction" where
  "convertToDBFormat row =
     \<lparr>tx_id = row_id row,
      accountType = Account_Type row,
      accountNumber = Account_Number row,
      transactionDate = Transaction_Date row,
      chequeNumber = Cheque_Number row,
      description1 = Description_1 row,
      description2 = Description_2 row,
      cadAmount = CAD row,
      usdAmount = USD row\<rparr>"

text \<open>\<open>row[col]\<close> on a \<open>ParsedRow\<close>, for a column name.\<close>

definition column :: "ParsedRow \<Rightarrow> string \<Rightarrow> string option" where
  "column row col =
     (if col = ''Account Type'' then Some (Account_Type row)
      else if col = ''Account Number'' then Some (Account_Number row)
      else if col = ''Transaction Date'' then Some (Transaction_Date row)
      else if col = ''Cheque Number'' then Some (Cheque_Number row)
      else if col = ''Description 1'' then Some (Description_1 row)
      else if col = ''Description 2'' then Some (Description_2 row)
      else if col = ''CAD$'' then Some (CAD row)
      else if col = ''USD$'' then Some (USD row)
      else None)"

section \<open>The validator (schemaValidation, the module that sanitizes and stores)\<close>

text \<open>
  The module \<open>validateRows\<close> is imported from by the upload zone: the variant with
  \<open>sanitizeRow\<close> and the store. (The sources also hold an earlier variant of it, with
  another rule table, that neither sanitizes nor stores; it is not modelled.)
\<close>

datatype column_type = TString | TNumber | TDate

definition COLUMN_RULES :: "(string \<times> column_type \<times> bool) list" where
  "COLUMN_RULES =
     [(''Account Type'', TString, False),
      (''Account Number'', TString, False),
      (''Transaction Date'', TDate, False),
      (''Cheque Number'', TString, True),
      (''Description 1'', TString, False),
      (''Description 2'', TString, True),
      (''CAD$'', TNumber, True),
      (''USD$'', TNumber, True)]"

text \<open>
  \<open>checkType(value, expectedType, allowEmpty)\<close>. The value is a string here (the clean
  row holds strings only), so \<open>typeof value === "string"\<close> is true.
\<close>

definition checkType :: "host \<Rightarrow> string \<Rightarrow> column_type \<Rightarrow> bool \<Rightarrow> bool" where
  "checkType h v expectedType allowEmpty =
     (if allowEmpty \<and> v = [] then True
      else (case expectedType of
              TString \<Rightarrow> True
            | TNumber \<Rightarrow> \<not> isNaN (Number v)
            | TDate \<Rightarrow> Date_parse h v \<noteq> None))"

text \<open>
  \<open>sanitizeRow(row)\<close>: the date is split at the slashes into month, day and year
  (a missing piece is \<open>undefined\<close>), built as a local date and written as the UTC date
  of its ISO string; the other columns are trimmed. \<open>toISOString\<close> throws on an
  Invalid Date, and nothing catches it.
\<close>

definition sanitizeRow :: "host \<Rightarrow> ParsedRow \<Rightarrow> error + ParsedRow" where
  "sanitizeRow h row =
     (let parts = split_on CHR ''/'' (Transaction_Date row);
          month = element parts 0;
          day = element parts 1;
          year = element parts 2;
          date = new_Date h (unary_plus year) (minus_one (unary_plus month)) (unary_plus day)
      in case toISOString_date date of
           Inl e \<Rightarrow> Inl e
         | Inr isoDate \<Rightarrow>
             Inr (row\<lparr>Transaction_Date := isoDate,
                      CAD := trim (CAD row),
                      USD := trim (USD row),
                      Account_Number := trim (Account_Number row),
                      Description_1 := trim (Description_1 row),
                      Description_2 := trim (Description_2 row),
                      Account_Type := trim (Account_Type row),
                      Cheque_Number := trim (Cheque_Number row)\<rparr>))"

text \<open>
  The clean row structure of \<open>validateRows\<close>, for the id the row gets: every column
  is \<open>row[col] || ""\<close>.
\<close>

definition clean_row :: "string \<Rightarrow> js_object \<Rightarrow> ParsedRow" where
  "clean_row i row =
     \<lparr>row_id = i,
      Account_Type = or_empty (property row ''Account Type''),
      Account_Number = or_empty (property row ''Account Number''),
      Transaction_Date = or_empty (property row ''Transaction Date''),
      Cheque_Number = or_empty (property row ''Cheque Number''),
      Description_1 = or_empty (property row ''Description 1''),
      Description_2 = or_empty (property row ''Description 2''),
      CAD = or_empty (property row ''CAD$''),
      USD = or_empty (property row ''USD$'')\<rparr>"

text \<open>
  The inner loop of \<open>validateRows\<close>: the columns in the order of the given header
  list, the first violated rule is thrown. (A column without a rule or a value would be
  a TypeError; the required headers all have both.)
\<close>

fun validate_columns :: "host \<Rightarrow> ParsedRow \<Rightarrow> string list \<Rightarrow> error + unit" where
  "validate_columns h sanitizedRow [] = Inr ()"
| "validate_columns h sanitizedRow (col # cols) =
     (case (map_of COLUMN_RULES col, column sanitizedRow col) of
        (Some (type, allowEmpty), Some v) \<Rightarrow>
          if checkType h v type allowEmpty then validate_columns h sanitizedRow cols
          else Inl (InvalidType col v)
      | _ \<Rightarrow> Inl TypeError)"

text \<open>One turn of the first loop, for the id the row gets: clean, sanitize, validate.\<close>

definition process_row :: "host \<Rightarrow> string \<Rightarrow> js_object \<Rightarrow> error + ParsedRow" where
  "process_row h i row =
     (case sanitizeRow h (clean_row i row) of
        Inl e \<Rightarrow> Inl e
      | Inr sanitizedRow \<Rightarrow>
          (case validate_columns h sanitizedRow REQUIRED_HEADERS of
             Inl e \<Rightarrow> Inl e
           | Inr u \<Rightarrow> Inr sanitizedRow))"

text \<open>
  \<open>row.id || nanoid()\<close>: the id of the row when it has a non-empty one, else the next
  identifier of the generator. The number counts the identifiers drawn so far.
\<close>

definition id_or_nanoid :: "host \<Rightarrow> nat \<Rightarrow> js_object \<Rightarrow> string \<times> nat" where
  "id_or_nanoid h n row =
     (case property row ''id'' of
        None \<Rightarrow> (nanoid h n, Suc n)
      | Some i \<Rightarrow> if i = [] then (nanoid h n, Suc n) else (i, n))"

text \<open>
  The first loop of \<open>validateRows\<close>: every row is sanitized and validated, the first
  error ends the loop; the result is the list \<open>validated\<close>.
\<close>

fun validate_loop :: "host \<Rightarrow> nat \<Rightarrow> js_object list \<Rightarrow> (error + ParsedRow list) \<times> nat" where
  "validate_loop h n [] = (Inr [], n)"
| "validate_loop h n (row # rows) =
     (case id_or_nanoid h n row of
        (i, n') \<Rightarrow>
          (case process_row h i row of
             Inl e \<Rightarrow> (Inl e, n')
           | Inr sanitizedRow \<Rightarrow>
               (case validate_loop h n' rows of
                  (Inl e, n'') \<Rightarrow> (Inl e, n'')
                | (Inr validated, n'') \<Rightarrow> (Inr (sanitizedRow # validated), n''))))"

section \<open>The store (services/idb/transactionsRepo.ts)\<close>

text \<open>
  The object store \<open>transactions\<close> of the IndexedDB database, keyed by \<open>id\<close>, and the
  number of identifiers \<open>nanoid()\<close> has returned.
\<close>

record app_state =
  transactions :: "string \<rightharpoonup> DBTransaction"
  idsDrawn :: nat

text \<open>\<open>store.add(record)\<close>: a ConstraintError when the key is already in the store.\<close>

definition store_add :: "(string \<rightharpoonup> DBTransaction) \<Rightarrow> DBTransaction \<Rightarrow> idb_error + (string \<rightharpoonup> DBTransaction)" where
  "store_add m r = (if m (tx_id r) = None then Inr (m(tx_id r \<mapsto> r)) else Inl ConstraintError)"

text \<open>
  \<open>addTransaction(row)\<close>: one readwrite transaction for the one record. When the add
  fails the transaction aborts, the store is as before and the error is thrown again.
\<close>

definition addTransaction :: "app_state \<Rightarrow> ParsedRow \<Rightarrow> (idb_error + unit) \<times> app_state" where
  "addTransaction st row =
     (case store_add (transactions st) (convertToDBFormat row) of
        Inl e \<Rightarrow> (Inl e, st)
      | Inr m \<Rightarrow> (Inr (), st\<lparr>transactions := m\<rparr>))"

text \<open>The adds of \<open>addTransactions\<close> inside its one transaction.\<close>

fun add_all :: "(string \<rightharpoonup> DBTransaction) \<Rightarrow> ParsedRow list \<Rightarrow> idb_error + (string \<rightharpoonup> DBTransaction)" where
  "add_all m [] = Inr m"
| "add_all m (row # rows) =
     (case store_add m (convertToDBFormat row) of
        Inl e \<Rightarrow> Inl e
      | Inr m' \<Rightarrow> add_all m' rows)"

text \<open>
  \<open>addTransactions(rows)\<close>: all records in one transaction, which commits at
  \<open>tx.done\<close> or aborts with the first add that fails.
\<close>

definition addTransactions :: "app_state \<Rightarrow> ParsedRow list \<Rightarrow> (idb_error + unit) \<times> app_state" where
  "addTransactions st rows =
     (case add_all (transactions st) rows of
        Inl e \<Rightarrow> (Inl e, st)
      | Inr m \<Rightarrow> (Inr (), st\<lparr>transactions := m\<rparr>))"

definition getTransaction :: "app_state \<Rightarrow> string \<Rightarrow> error + DBTransaction" where
  "getTransaction st i =
     (case transactions st i of
        None \<Rightarrow> Inl (NotFound i)
      | Some r \<Rightarrow> Inr r)"

definition updateTransaction :: "app_state \<Rightarrow> ParsedRow \<Rightarrow> (error + unit) \<times> app_state" where
  "updateTransaction st row =
     (case transactions st (row_id row) of
        None \<Rightarrow> (Inl (CannotUpdate (row_id row)), st)
      | Some existing \<Rightarrow> (Inr (), st\<lparr>transactions := (transactions st)(row_id row \<mapsto> convertToDBFormat row)\<rparr>))"

text \<open>
  \<open>deleteTransaction(id)\<close>: \<open>db.delete\<close> resolves whether or not the key is in the
  store, and the function has no check of its own.
\<close>

definition deleteTransaction :: "app_state \<Rightarrow> string \<Rightarrow> (error + unit) \<times> app_state" where
  "deleteTransaction st i = (Inr (), st\<lparr>transactions := (transactions st)(i := None)\<rparr>)"

definition clearTransactions :: "app_state \<Rightarrow> (error + unit) \<times> app_state" where
  "clearTransactions st = (Inr (), st\<lparr>transactions := Map.empty\<rparr>)"

definition getTransactionCount :: "app_state \<Rightarrow> nat" where
  "getTransactionCount st = card (dom (transactions st))"

section \<open>The import\<close>

text \<open>
  The second loop of \<open>validateRows\<close>: each validated row is stored by a call of
  \<open>addTransaction\<close> of its own; the first failure is thrown as a new Error.
\<close>

fun store_loop :: "app_state \<Rightarrow> ParsedRow list \<Rightarrow> (error + unit) \<times> app_state" where
  "store_loop st [] = (Inr (), st)"
| "store_loop st (validatedRow # rest) =
     (case addTransaction st validatedRow of
        (Inl e, st') \<Rightarrow> (Inl (StoreFailed e), st')
      | (Inr u, st') \<Rightarrow> store_loop st' rest)"

text \<open>
  The header check of \<open>validateRows\<close> on the keys of the first row, \<open>id\<close> and
  \<open>__parsed_extra\<close> left out: the same length as the required headers, and every
  required header equal to the key at its index.
\<close>

definition firstRowKeys :: "js_object list \<Rightarrow> string list" where
  "firstRowKeys rows =
     filter (\<lambda>k. k \<noteq> ''id'' \<and> k \<noteq> ''__parsed_extra'') (Object_keys (hd rows))"

definition headers_ok :: "string list \<Rightarrow> bool" where
  "headers_ok ks =
     (length ks = length REQUIRED_HEADERS
      \<and> list_all (\<lambda>i. REQUIRED_HEADERS ! i = ks ! i) [0..<length REQUIRED_HEADERS])"

text \<open>\<open>validateRows(rows)\<close>.\<close>

definition validateRows :: "host \<Rightarrow> app_state \<Rightarrow> js_object list \<Rightarrow> (error + ParsedRow list) \<times> app_state" where
  "validateRows h st rows =
     (if rows = [] then (Inl NoData, st)
      else if headers_ok (firstRowKeys rows) then
        (case validate_loop h (idsDrawn st) rows of
           (Inl e, n) \<Rightarrow> (Inl e, st\<lparr>idsDrawn := n\<rparr>)
         | (Inr validated, n) \<Rightarrow>
             (case store_loop (st\<lparr>idsDrawn := n\<rparr>) validated of
                (Inl e, st') \<Rightarrow> (Inl e, st')
              | (Inr u, st') \<Rightarrow> (Inr validated, st')))
      else (Inl InvalidHeaders, st))"

text \<open>The message of an Error the program creates itself.\<close>

fun error_message :: "error \<Rightarrow> string option" where
  "error_message NoData = Some ''No data to validate''"
| "error_message InvalidHeaders = Some ''Invalid headers detected during validation''"
| "error_message (InvalidType col v) = Some (''Invalid type for column \"'' @ col @ ''\": '' @ v)"
| "error_message (NotFound i) = Some (''Transaction with id '' @ i @ '' not found'')"
| "error_message (CannotUpdate i) = Some (''Cannot update, transaction with id '' @ i @ '' does not exist'')"
| "error_message e = None"

section \<open>The decoder (utils/parseCSV.ts)\<close>

text \<open>
  \<open>results.data.map((row) => ({ id: nanoid(), ...row }))\<close>: every decoded record gets
  a generated id in front, and then its own properties are spread over it.
\<close>

fun rowsWithId :: "host \<Rightarrow> nat \<Rightarrow> js_object list \<Rightarrow> js_object list" where
  "rowsWithId h n [] = []"
| "rowsWithId h n (row # data) = spread [(''id'', nanoid h n)] row # rowsWithId h (Suc n) data"

text \<open>
  \<open>parseCSV(file)\<close>, from what papaparse makes of the file: an error (the promise is
  rejected with it) or the decoded records \<open>results.data\<close>.
\<close>

definition parseCSV :: "host \<Rightarrow> app_state \<Rightarrow> string + js_object list \<Rightarrow> (error + js_object list) \<times> app_state" where
  "parseCSV h st parsed =
     (case parsed of
        Inl err \<Rightarrow> (Inl (DecodeError err), st)
      | Inr data \<Rightarrow>
          (Inr (rowsWithId h (idsDrawn st) data), st\<lparr>idsDrawn := idsDrawn st + length data\<rparr>))"

text \<open>\<open>handleParse\<close> of the upload zone: decode, then validate and store.\<close>

definition handleParse :: "host \<Rightarrow> app_state \<Rightarrow> string + js_object list \<Rightarrow> (error + ParsedRow list) \<times> app_state" where
  "handleParse h st parsed =
     (case parseCSV h st parsed of
        (Inl e, st') \<Rightarrow> (Inl e, st')
      | (Inr parsedRows, st') \<Rightarrow> validateRows h st' parsedRows)"

section \<open>Concrete inputs\<close>

text \<open>
  A host in the UTC time zone whose \<open>k\<close>-th identifier is \<open>k + 1\<close> letters \<open>n\<close>, and
  whose \<open>Date.parse\<close> accepts nothing but ISO dates (what it answers where the model
  asks the host about a date is never used below: the dates below are made of small
  integers); the empty store; and the decoded record of the bank statement line of
  Scenario A, with its date and first description left open.
\<close>

definition utc_host :: host where
  "utc_host =
     \<lparr>nanoid = (\<lambda>k. replicate (Suc k) CHR ''n''),
      localTZA = (\<lambda>t. 0),
      engineDateParse = (\<lambda>s. None),
      engineDate = (\<lambda>y m d. None)\<rparr>"

definition empty_state :: app_state where
  "empty_state = \<lparr>transactions = Map.empty, idsDrawn = 0\<rparr>"

definition decoded_record :: "string \<Rightarrow> string \<Rightarrow> js_object" where
  "decoded_record date desc1 =
     [(''Account Type'', ''Chequing''), (''Account Number'', ''12345''),
      (''Transaction Date'', date), (''Cheque Number'', []),
      (''Description 1'', desc1), (''Description 2'', []),
      (''CAD$'', ''-54.32''), (''USD$'', [])]"

text \<open>The row a decoded record of that shape is sanitized to.\<close>

definition sanitized_row :: "string \<Rightarrow> string \<Rightarrow> string \<Rightarrow> ParsedRow" where
  "sanitized_row i date desc1 =
     \<lparr>row_id = i, Account_Type = ''Chequing'', Account_Number = ''12345'',
      Transaction_Date = date, Cheque_Number = [], Description_1 = desc1,
      Description_2 = [], CAD = ''-54.32'', USD = []\<rparr>"

text \<open>
  A date string with three slash-separated pieces that each convert to a finite
  number, as \<open>sanitizeRow\<close> reads them.
\<close>

definition three_numeric_components :: "string \<Rightarrow> bool" where
  "three_numeric_components d =
     (let parts = split_on CHR ''/'' d
      in is_finite_number (unary_plus (element parts 0))
         \<and> is_finite_number (unary_plus (element parts 1))
         \<and> is_finite_number (unary_plus (element parts 2)))"

text \<open>The canonical form \<open>YYYY-MM-DD\<close>: ten characters, digits around two hyphens.\<close>

definition canonical_date :: "string \<Rightarrow> bool" where
  "canonical_date s =
     (case s of
        [y1, y2, y3, y4, a, m1, m2, b, d1, d2] \<Rightarrow>
          list_all is_digit [y1, y2, y3, y4, m1, m2, d1, d2] \<and> a = CHR ''-'' \<and> b = CHR ''-''
      | _ \<Rightarrow> False)"

text \<open>The record of Scenario B: the last two columns of the file are swapped.\<close>

definition swapped_record :: js_object where
  "swapped_record =
     [(''Account Type'', ''Chequing''), (''Account Number'', ''12345''),
      (''Transaction Date'', ''01/15/2024''), (''Cheque Number'', []),
      (''Description 1'', ''Grocery Store''), (''Description 2'', []),
      (''USD$'', []), (''CAD$'', ''-54.32'')]"

text \<open>
  An already sanitized row: the date in canonical form and every other column equal
  to its own trimmed form.
\<close>

definition already_sanitized :: "ParsedRow \<Rightarrow> bool" where
  "already_sanitized row =
     (canonical_date (Transaction_Date row)
      \<and> trim (CAD row) = CAD row \<and> trim (USD row) = USD row
      \<and> trim (Account_Number row) = Account_Number row
      \<and> trim (Description_1 row) = Description_1 row
      \<and> trim (Description_2 row) = Description_2 row
      \<and> trim (Account_Type row) = Account_Type row
      \<and> trim (Cheque_Number row) = Cheque_Number row)"

section \<open>Evaluation\<close>

lemmas number_defs = StringToNumber_def trim_def is_js_whitespace_def unsigned_decimal_def
  is_digit_def exponent_part_def hex_digit_value_def round_overflow_def js_negate_def
  radix_literal_def Number_def unary_plus_def isNaN_def is_finite_number_def

lemmas date_defs = new_Date_def exact_integer_def MakeDay_def days_from_civil_def civil_from_days_def
  ToInteger_def TimeClip_def msPerDay_def toISOString_date_def iso_year_def

lemmas parse_defs = iso_calendar_date_def Date_parse_def days_in_month_def number_of_digits_def
  days_from_civil_def TimeClip_def msPerDay_def

lemmas row_defs = decoded_record_def property_def or_empty_def clean_row_def
  REQUIRED_HEADERS_def COLUMN_RULES_def column_def checkType_def sanitized_row_def

lemma pad_digits_2:
  "pad_digits 2 n = [digit_char (n div 10 mod 10), digit_char (n mod 10)]"
  by (simp add: numeral_2_eq_2)

lemma four_Suc: "(4::nat) = Suc (Suc (Suc (Suc 0)))"
  by simp

lemma pad_digits_4:
  "pad_digits 4 n =
     [digit_char (n div 10 div 10 div 10 mod 10), digit_char (n div 10 div 10 mod 10),
      digit_char (n div 10 mod 10), digit_char (n mod 10)]"
  by (simp only: four_Suc pad_digits.simps append.simps)

lemma date_2024_01_15:
  "toISOString_date (new_Date utc_host (Num 2024) (Num 0) (Num 15)) = Inr ''2024-01-15''"
  unfolding date_defs Let_def
  by (simp add: utc_host_def pad_digits_2 pad_digits_4 digit_char_def)


lemma split_01_15_2024: "split_on CHR ''/'' ''01/15/2024'' = [''01'', ''15'', ''2024'']"
  by simp


lemma numbers_of_pieces:
  "unary_plus (Some ''01'') = Num 1" "unary_plus (Some ''15'') = Num 15"
  "unary_plus (Some ''2024'') = Num 2024" "unary_plus (Some ''13'') = Num 13"
  "unary_plus (Some ''45'') = Num 45"
  by (simp_all add: number_defs)

lemma trims_of_record:
  "trim ''Chequing'' = ''Chequing''" "trim ''12345'' = ''12345''" "trim [] = []"
  "trim ''-54.32'' = ''-54.32''" "trim ''Grocery Store'' = ''Grocery Store''"
  by (simp_all add: trim_def is_js_whitespace_def)

lemma sanitizeRow_scenario_A:
  "sanitizeRow utc_host (clean_row i (decoded_record ''01/15/2024'' ''Grocery Store''))
     = Inr (sanitized_row i ''2024-01-15'' ''Grocery Store'')"
  by (simp add: sanitizeRow_def row_defs split_01_15_2024 element_def numbers_of_pieces
      minus_one_def date_2024_01_15 trims_of_record)


lemma sanitizeRow_empty_description:
  "sanitizeRow utc_host (clean_row i (decoded_record ''01/15/2024'' []))
     = Inr (sanitized_row i ''2024-01-15'' [])"
  by (simp add: sanitizeRow_def row_defs split_01_15_2024 element_def numbers_of_pieces
      minus_one_def date_2024_01_15 trims_of_record)

lemma Date_parse_2024_01_15: "Date_parse h ''2024-01-15'' = Some 1705276800000"
  by (simp add: parse_defs is_digit_def hex_digit_value_def)

lemma Date_parse_2025_02_14: "Date_parse h ''2025-02-14'' = Some 1739491200000"
  by (simp add: parse_defs is_digit_def hex_digit_value_def)

lemma Number_amounts: "Number ''-54.32'' = Num (- 1358 / 25)" "Number [] = Num 0"
  by (simp_all add: number_defs)

lemma validate_columns_sanitized:
  "validate_columns h (sanitized_row i ''2024-01-15'' d) REQUIRED_HEADERS = Inr ()"
  "validate_columns h (sanitized_row i ''2025-02-14'' d) REQUIRED_HEADERS = Inr ()"
  by (simp_all add: row_defs Date_parse_2024_01_15 Date_parse_2025_02_14 Number_amounts isNaN_def)

lemma process_row_scenario_A:
  "process_row utc_host i (decoded_record ''01/15/2024'' ''Grocery Store'')
     = Inr (sanitized_row i ''2024-01-15'' ''Grocery Store'')"
  by (simp add: process_row_def sanitizeRow_scenario_A validate_columns_sanitized)


lemma process_row_empty_description:
  "process_row utc_host i (decoded_record ''01/15/2024'' [])
     = Inr (sanitized_row i ''2024-01-15'' [])"
  by (simp add: process_row_def sanitizeRow_empty_description validate_columns_sanitized)

section \<open>General facts about the model\<close>

lemma headers_ok_iff: "headers_ok ks \<longleftrightarrow> ks = REQUIRED_HEADERS"
proof
  assume "headers_ok ks"
  then have len: "length ks = length REQUIRED_HEADERS"
    and nth: "\<And>i. i < length REQUIRED_HEADERS \<Longrightarrow> REQUIRED_HEADERS ! i = ks ! i"
    by (simp_all add: headers_ok_def list_all_iff)
  show "ks = REQUIRED_HEADERS"
    by (rule nth_equalityI) (simp_all add: len nth)
next
  assume "ks = REQUIRED_HEADERS"
  then show "headers_ok ks"
    by (simp add: headers_ok_def list_all_iff)
qed

lemma unchanged_state: "st\<lparr>idsDrawn := idsDrawn st\<rparr> = st" "st\<lparr>transactions := transactions st\<rparr> = st"
  by simp_all

text \<open>The id of a row plays no part in sanitizing or validating it.\<close>

lemma clean_row_id: "clean_row i row = (clean_row j row)\<lparr>row_id := i\<rparr>"
  by (simp add: clean_row_def)

lemma sanitizeRow_id:
  "sanitizeRow h (r\<lparr>row_id := i\<rparr>) =
     (case sanitizeRow h r of Inl e \<Rightarrow> Inl e | Inr s \<Rightarrow> Inr (s\<lparr>row_id := i\<rparr>))"
  by (simp add: sanitizeRow_def Let_def split: sum.splits)

lemma column_id: "column (s\<lparr>row_id := i\<rparr>) col = column s col"
  by (simp add: column_def)

lemma validate_columns_id:
  "validate_columns h (s\<lparr>row_id := i\<rparr>) cols = validate_columns h s cols"
  by (induction cols) (auto simp: column_id split: option.splits)

lemma process_row_isl: "isl (process_row h i row) = isl (process_row h j row)"
proof -
  have "sanitizeRow h (clean_row i row) =
      (case sanitizeRow h (clean_row j row) of Inl e \<Rightarrow> Inl e | Inr s \<Rightarrow> Inr (s\<lparr>row_id := i\<rparr>))"
    using clean_row_id [of i row j] sanitizeRow_id [where h = h and r = "clean_row j row" and i = i] by simp
  then show ?thesis
    by (simp add: process_row_def validate_columns_id split: sum.splits)
qed



text \<open>A row that fails ends the first loop with an error, wherever it stands.\<close>

lemma validate_loop_fails:
  "r \<in> set rows \<Longrightarrow> isl (process_row h i r) \<Longrightarrow> isl (fst (validate_loop h n rows))"
proof (induction rows arbitrary: n)
  case Nil
  then show ?case by simp
next
  case (Cons row rows)
  obtain j n' where idn: "id_or_nanoid h n row = (j, n')"
    by (cases "id_or_nanoid h n row")
  show ?case
  proof (cases "process_row h j row")
    case (Inl e)
    with idn show ?thesis by simp
  next
    case (Inr s)
    then have "r \<noteq> row"
      using Cons.prems(2) process_row_isl [of h i r j] by auto
    with Cons.prems have "r \<in> set rows" by simp
    then have "isl (fst (validate_loop h n' rows))"
      using Cons.IH Cons.prems(2) by blast
    with idn Inr show ?thesis
      by (cases "validate_loop h n' rows") (auto split: sum.splits)
  qed
qed

text \<open>An error of the first loop leaves the store as it was.\<close>

lemma validateRows_first_loop_error:
  assumes "isl (fst (validate_loop h (idsDrawn st) rows))"
  shows "isl (fst (validateRows h st rows))
         \<and> transactions (snd (validateRows h st rows)) = transactions st"
proof (cases "validate_loop h (idsDrawn st) rows")
  case (Pair res n)
  with assms obtain e where "res = Inl e" by (cases res) auto
  with Pair show ?thesis
    by (simp add: validateRows_def)
qed

lemma count_of_store:
  "transactions st' = transactions st \<Longrightarrow> getTransactionCount st' = getTransactionCount st"
  by (simp add: getTransactionCount_def)

section \<open>The claims\<close>

text \<open>
  C1. For every batch in which at least one row fails sanitization or validation
  (so the batch has at least one row), \<open>validateRows\<close> raises an error and persists
  nothing: the store, and with it \<open>count()\<close>, is what it was before the attempt,
  because the first loop validates every row before the second loop stores any.
  Whether a row fails does not depend on the id it is given (\<open>process_row_isl\<close>).
\<close>

theorem validateRows_all_or_nothing:
  assumes "r \<in> set rows" and "isl (process_row h i r)"
  shows "isl (fst (validateRows h st rows))
         \<and> transactions (snd (validateRows h st rows)) = transactions st
         \<and> getTransactionCount (snd (validateRows h st rows)) = getTransactionCount st"
proof -
  have "isl (fst (validate_loop h (idsDrawn st) rows))"
    using assms by (rule validate_loop_fails)
  then have "isl (fst (validateRows h st rows))
      \<and> transactions (snd (validateRows h st rows)) = transactions st"
    by (rule validateRows_first_loop_error)
  then show ?thesis
    using count_of_store [of "snd (validateRows h st rows)" st] by blast
qed

lemma process_row_no_slash:
  "process_row utc_host i (decoded_record ''abc'' ''Grocery Store'') = Inl RangeError"
  by (simp add: process_row_def sanitizeRow_def row_defs element_def unary_plus_def
      new_Date_def toISOString_date_def)

theorem validateRows_all_or_nothing_witness:
  "decoded_record ''abc'' ''Grocery Store''
     \<in> set [decoded_record ''01/15/2024'' ''Grocery Store'', decoded_record ''abc'' ''Grocery Store'']
   \<and> isl (process_row utc_host [] (decoded_record ''abc'' ''Grocery Store''))
   \<and> isl (fst (validateRows utc_host empty_state
        [decoded_record ''01/15/2024'' ''Grocery Store'', decoded_record ''abc'' ''Grocery Store'']))
   \<and> getTransactionCount (snd (validateRows utc_host empty_state
        [decoded_record ''01/15/2024'' ''Grocery Store'', decoded_record ''abc'' ''Grocery Store'']))
       = getTransactionCount empty_state"
proof -
  have a: "decoded_record ''abc'' ''Grocery Store''
     \<in> set [decoded_record ''01/15/2024'' ''Grocery Store'', decoded_record ''abc'' ''Grocery Store'']"
    by simp
  have b: "isl (process_row utc_host [] (decoded_record ''abc'' ''Grocery Store''))"
    by (simp add: process_row_no_slash)
  show ?thesis
    using a b validateRows_all_or_nothing [OF a b, of empty_state] by blast
qed

text \<open>
  C10. For the empty batch \<open>validateRows\<close> raises the error with the message
  "No data to validate" and changes nothing; a file with a header line only decodes to
  the empty batch, so \<open>handleParse\<close> ends the same way.
\<close>

theorem validateRows_empty_batch:
  "validateRows h st [] = (Inl NoData, st)
   \<and> error_message NoData = Some ''No data to validate''
   \<and> handleParse h st (Inr []) = (Inl NoData, st)"
  by (simp add: validateRows_def handleParse_def parseCSV_def)

text \<open>
  C9, as the code has it. \<open>deleteTransaction(id)\<close> for an id that is not in the store
  raises nothing: it returns normally, the store is unchanged and so is \<open>count()\<close>.
\<close>

theorem deleteTransaction_absent:
  assumes "transactions st i = None"
  shows "deleteTransaction st i = (Inr (), st)
         \<and> getTransactionCount (snd (deleteTransaction st i)) = getTransactionCount st"
proof -
  have "(transactions st)(i := None) = transactions st"
    using assms by (simp add: fun_upd_idem_iff)
  then show ?thesis
    by (simp add: deleteTransaction_def)
qed

theorem deleteTransaction_absent_witness:
  "transactions empty_state ''missing'' = None
   \<and> deleteTransaction empty_state ''missing'' = (Inr (), empty_state)
   \<and> getTransactionCount (snd (deleteTransaction empty_state ''missing''))
       = getTransactionCount empty_state"
proof -
  have a: "transactions empty_state ''missing'' = None"
    by (simp add: empty_state_def)
  show ?thesis
    using a deleteTransaction_absent [OF a] by blast
qed

text \<open>
  The claim C9 as stated fails: for an id that is not in the (empty) store,
  \<open>deleteTransaction\<close> returns a result and no error.
\<close>

theorem deleteTransaction_raises_nothing:
  "transactions empty_state ''missing'' = None
   \<and> \<not> isl (fst (deleteTransaction empty_state ''missing''))"
  by (simp add: empty_state_def deleteTransaction_def)

text \<open>
  C6, as the code has it. A value checked against a \<open>number\<close> rule is accepted if
  and only if \<open>Number(value)\<close> is not NaN, that is a finite number or an infinity, or
  the value is empty and \<open>allowEmpty\<close> is true.
\<close>

theorem checkType_number:
  "checkType h v TNumber allowEmpty \<longleftrightarrow>
     (is_finite_number (Number v) \<or> Number v = PosInf \<or> Number v = NegInf)
     \<or> (v = [] \<and> allowEmpty)"
  by (cases "Number v") (auto simp: checkType_def isNaN_def is_finite_number_def Number_amounts)

text \<open>
  The claim C6 as stated fails at the value \<open>Infinity\<close>: it is accepted, it is not
  empty, and it does not convert to a finite number.
\<close>

lemma Number_Infinity: "Number ''Infinity'' = PosInf"
  by (simp add: number_defs)

theorem checkType_accepts_Infinity:
  "checkType utc_host ''Infinity'' TNumber True
   \<and> \<not> (is_finite_number (Number ''Infinity'') \<or> (''Infinity'' = [] \<and> True))"
  by (simp add: checkType_def isNaN_def is_finite_number_def Number_Infinity)

section \<open>Evaluating an import\<close>

text \<open>A batch of one row that passes the header check, the first loop and the store.\<close>

lemma validateRows_single:
  assumes "firstRowKeys [row] = REQUIRED_HEADERS"
    and "id_or_nanoid h (idsDrawn st) row = (i, n)"
    and "process_row h i row = Inr s"
    and "transactions st (row_id s) = None"
  shows "validateRows h st [row] =
           (Inr [s], st\<lparr>idsDrawn := n,
                         transactions := (transactions st)(row_id s \<mapsto> convertToDBFormat s)\<rparr>)"
  using assms
  by (simp add: validateRows_def headers_ok_iff addTransaction_def store_add_def
      convertToDBFormat_def)

lemma firstRowKeys_decoded_record:
  "firstRowKeys (decoded_record d x # rows) = REQUIRED_HEADERS"
  "firstRowKeys (((''id'', i) # decoded_record d x) # rows) = REQUIRED_HEADERS"
  by (simp_all add: firstRowKeys_def Object_keys_def decoded_record_def REQUIRED_HEADERS_def)

lemma spread_decoded_record:
  "spread [(''id'', i)] (decoded_record d x) = (''id'', i) # decoded_record d x"
  "spread [(''id'', i)] ((''id'', j) # decoded_record d x) = (''id'', j) # decoded_record d x"
  by (simp_all add: spread_def decoded_record_def)

lemma process_row_with_id: "process_row h i ((''id'', j) # row) = process_row h i row"
  by (simp add: process_row_def clean_row_def property_def)

lemma id_or_nanoid_with_id:
  "j \<noteq> [] \<Longrightarrow> id_or_nanoid h n ((''id'', j) # row) = (j, n)"
  "id_or_nanoid h n ((''id'', []) # row) = (nanoid h n, Suc n)"
  by (simp_all add: id_or_nanoid_def property_def)

lemma nanoid_utc_host:
  "nanoid utc_host 0 = ''n''" "nanoid utc_host (Suc 0) = ''nn''"
  by (simp_all add: utc_host_def)

lemma row_id_sanitized_row: "row_id (sanitized_row i d x) = i"
  by (simp add: sanitized_row_def)

lemma count_one: "getTransactionCount (st\<lparr>transactions := Map.empty(k \<mapsto> v)\<rparr>) = 1"
  by (simp add: getTransactionCount_def)

text \<open>Importing a file with one line whose decoded record has the eight columns.\<close>

lemma handleParse_one_record:
  assumes "process_row utc_host ''n'' (decoded_record d x) = Inr (sanitized_row ''n'' d' x')"
  shows "handleParse utc_host empty_state (Inr [decoded_record d x]) =
           (Inr [sanitized_row ''n'' d' x'],
            \<lparr>transactions = Map.empty(''n'' \<mapsto> convertToDBFormat (sanitized_row ''n'' d' x')),
             idsDrawn = 1\<rparr>)"
proof -
  let ?st = "empty_state\<lparr>idsDrawn := 1\<rparr>"
  let ?row = "(''id'', ''n'') # decoded_record d x"
  have parsed: "parseCSV utc_host empty_state (Inr [decoded_record d x]) = (Inr [?row], ?st)"
    by (simp add: parseCSV_def empty_state_def spread_decoded_record nanoid_utc_host)
  have "validateRows utc_host ?st [?row] =
      (Inr [sanitized_row ''n'' d' x'],
       ?st\<lparr>idsDrawn := 1,
            transactions := (transactions ?st)(row_id (sanitized_row ''n'' d' x')
              \<mapsto> convertToDBFormat (sanitized_row ''n'' d' x'))\<rparr>)"
  proof (rule validateRows_single)
    show "firstRowKeys [?row] = REQUIRED_HEADERS"
      by (rule firstRowKeys_decoded_record)
    show "id_or_nanoid utc_host (idsDrawn ?st) ?row = (''n'', 1)"
      by (simp add: id_or_nanoid_with_id)
    show "process_row utc_host ''n'' ?row = Inr (sanitized_row ''n'' d' x')"
      using assms by (simp only: process_row_with_id)
    show "transactions ?st (row_id (sanitized_row ''n'' d' x')) = None"
      by (simp add: empty_state_def)
  qed
  with parsed show ?thesis
    by (simp add: handleParse_def empty_state_def row_id_sanitized_row)
qed

section \<open>Failing dates\<close>

lemma is_finite_minus_one: "is_finite_number (minus_one x) = is_finite_number x"
  by (cases x) (simp_all add: minus_one_def is_finite_number_def)

lemma new_Date_not_finite:
  "\<not> (is_finite_number y \<and> is_finite_number m \<and> is_finite_number d) \<Longrightarrow> new_Date h y m d = None"
  by (cases y; cases m; cases d) (simp_all add: new_Date_def is_finite_number_def)

lemma sanitizeRow_not_numeric:
  assumes "\<not> three_numeric_components (Transaction_Date row)"
  shows "sanitizeRow h row = Inl RangeError"
proof -
  let ?parts = "split_on CHR ''/'' (Transaction_Date row)"
  have "\<not> (is_finite_number (unary_plus (element ?parts 2))
           \<and> is_finite_number (minus_one (unary_plus (element ?parts 0)))
           \<and> is_finite_number (unary_plus (element ?parts 1)))"
    using assms by (auto simp: three_numeric_components_def Let_def is_finite_minus_one)
  then have "new_Date h (unary_plus (element ?parts 2)) (minus_one (unary_plus (element ?parts 0)))
      (unary_plus (element ?parts 1)) = None"
    by (rule new_Date_not_finite)
  then show ?thesis
    by (simp add: sanitizeRow_def Let_def toISOString_date_def)
qed

lemma split_on_no_separator: "sep \<notin> set s \<Longrightarrow> split_on sep s = [s]"
  by (induction s) auto

lemma slash_is_no_digit: "\<not> is_digit CHR ''/''"
  by (simp add: is_digit_def)

lemma canonical_date_no_slash: "canonical_date s \<Longrightarrow> CHR ''/'' \<notin> set s"
  using slash_is_no_digit
  by (auto simp: canonical_date_def split: list.splits)

lemma one_piece_not_numeric: "CHR ''/'' \<notin> set d \<Longrightarrow> \<not> three_numeric_components d"
  by (simp add: three_numeric_components_def split_on_no_separator element_def unary_plus_def
      is_finite_number_def)

section \<open>The keys of a row\<close>

lemma Object_keys_set_property:
  "Object_keys (set_property k v obj) =
     (if k \<in> set (Object_keys obj) then Object_keys obj else Object_keys obj @ [k])"
  by (induction obj) (force simp: Object_keys_def)+

lemma Object_keys_spread:
  "distinct (Object_keys src) \<Longrightarrow>
   Object_keys (spread target src)
     = Object_keys target @ filter (\<lambda>k. k \<notin> set (Object_keys target)) (Object_keys src)"
proof (induction src arbitrary: target)
  case Nil
  then show ?case by (simp add: spread_def Object_keys_def)
next
  case (Cons p src)
  obtain k v where p: "p = (k, v)" by (cases p)
  with Cons.prems have k: "k \<notin> set (Object_keys src)" and d: "distinct (Object_keys src)"
    by (simp_all add: Object_keys_def)
  have step: "spread target (p # src) = spread (set_property k v target) src"
    by (simp add: spread_def p)
  have keys: "Object_keys (p # src) = k # Object_keys src"
    by (simp add: Object_keys_def p)
  have "filter (\<lambda>x. x \<noteq> k \<and> x \<notin> set (Object_keys target)) (Object_keys src)
      = filter (\<lambda>x. x \<notin> set (Object_keys target)) (Object_keys src)"
    using k by (intro filter_cong) auto
  then show ?case
    using Cons.IH [OF d, of "set_property k v target"]
    by (simp add: step keys Object_keys_set_property conj_commute)
qed

text \<open>
  The keys \<open>validateRows\<close> compares are the header names of the first decoded record,
  with \<open>id\<close> and \<open>__parsed_extra\<close> left out.
\<close>

lemma firstRowKeys_rowsWithId:
  assumes "data \<noteq> []" and "distinct (Object_keys (hd data))"
  shows "firstRowKeys (rowsWithId h n data)
           = filter (\<lambda>k. k \<noteq> ''id'' \<and> k \<noteq> ''__parsed_extra'') (Object_keys (hd data))"
proof -
  from assms(1) obtain rec rest where data: "data = rec # rest" by (cases data) auto
  with assms(2) have "Object_keys (spread [(''id'', nanoid h n)] rec)
      = ''id'' # filter (\<lambda>k. k \<noteq> ''id'') (Object_keys rec)"
    by (simp add: Object_keys_spread) (simp add: Object_keys_def)
  then show ?thesis
    by (simp add: firstRowKeys_def data conj_commute)
qed

lemma validateRows_bad_headers:
  assumes "rows \<noteq> []" and "firstRowKeys rows \<noteq> REQUIRED_HEADERS"
  shows "validateRows h st rows = (Inl InvalidHeaders, st)"
  using assms by (simp add: validateRows_def headers_ok_iff)

section \<open>The claims on headers and dates\<close>

text \<open>
  What the header check of the code does decide. \<open>validateRows\<close> never sees the
  header list of the file: it looks at the own keys of the first row it is given, which
  are the keys of the first decoded record behind the \<open>id\<close> of the decoder, and leaves
  the keys \<open>id\<close> and \<open>__parsed_extra\<close> out. For every batch of decoded records in
  which the keys of the first record, with \<open>id\<close> and \<open>__parsed_extra\<close> left out, are
  not exactly the required headers, in names and order, \<open>validateRows\<close> raises the
  Error "Invalid headers detected during validation" before any row-level work (it
  returns the state it was given, no id drawn, no row stored), and the import ends with
  that error, the store unchanged.
\<close>

theorem header_gate:
  assumes "data \<noteq> []"
    and "distinct (Object_keys (hd data))"
    and "filter (\<lambda>k. k \<noteq> ''id'' \<and> k \<noteq> ''__parsed_extra'') (Object_keys (hd data))
           \<noteq> REQUIRED_HEADERS"
  shows "validateRows h st' (rowsWithId h n data) = (Inl InvalidHeaders, st')
         \<and> fst (handleParse h st (Inr data)) = Inl InvalidHeaders
         \<and> transactions (snd (handleParse h st (Inr data))) = transactions st
         \<and> error_message InvalidHeaders = Some ''Invalid headers detected during validation''"
proof -
  have rows: "rowsWithId h m data \<noteq> []" for m
    using assms(1) by (cases data) simp_all
  have keys: "firstRowKeys (rowsWithId h m data) \<noteq> REQUIRED_HEADERS" for m
    using assms by (simp add: firstRowKeys_rowsWithId)
  have "validateRows h s (rowsWithId h m data) = (Inl InvalidHeaders, s)" for s m
    using rows keys by (rule validateRows_bad_headers)
  then show ?thesis
    by (simp add: handleParse_def parseCSV_def)
qed

theorem header_gate_witness:
  "[swapped_record] \<noteq> []
   \<and> distinct (Object_keys (hd [swapped_record]))
   \<and> filter (\<lambda>k. k \<noteq> ''id'' \<and> k \<noteq> ''__parsed_extra'') (Object_keys (hd [swapped_record]))
       \<noteq> REQUIRED_HEADERS
   \<and> fst (handleParse utc_host empty_state (Inr [swapped_record])) = Inl InvalidHeaders
   \<and> transactions (snd (handleParse utc_host empty_state (Inr [swapped_record])))
       = transactions empty_state"
proof -
  have a: "[swapped_record] \<noteq> []" by simp
  have b: "distinct (Object_keys (hd [swapped_record]))"
    by (simp add: Object_keys_def swapped_record_def)
  have c: "filter (\<lambda>k. k \<noteq> ''id'' \<and> k \<noteq> ''__parsed_extra'') (Object_keys (hd [swapped_record]))
       \<noteq> REQUIRED_HEADERS"
    by (simp add: Object_keys_def swapped_record_def REQUIRED_HEADERS_def)
  show ?thesis
    using a b c header_gate [OF a b c, of utc_host empty_state 0 empty_state] by blast
qed

text \<open>
  C3. A file with an extra first column named \<open>id\<close>: the header list, which is the
  key list of its decoded record, is not the required one (nine names for eight), and
  yet the import raises no error and stores the row, under the id the file gives. The
  check filters the key \<open>id\<close> out before it compares, so the extra column goes
  unseen.
\<close>

theorem id_column_passes_header_check:
  "Object_keys ((''id'', ''a'') # decoded_record ''01/15/2024'' ''Grocery Store'') \<noteq> REQUIRED_HEADERS
   \<and> fst (handleParse utc_host empty_state
         (Inr [(''id'', ''a'') # decoded_record ''01/15/2024'' ''Grocery Store'']))
       = Inr [sanitized_row ''a'' ''2024-01-15'' ''Grocery Store'']
   \<and> getTransactionCount (snd (handleParse utc_host empty_state
         (Inr [(''id'', ''a'') # decoded_record ''01/15/2024'' ''Grocery Store'']))) = 1"
proof -
  let ?st = "empty_state\<lparr>idsDrawn := 1\<rparr>"
  let ?row = "(''id'', ''a'') # decoded_record ''01/15/2024'' ''Grocery Store''"
  let ?s = "sanitized_row ''a'' ''2024-01-15'' ''Grocery Store''"
  have parsed: "parseCSV utc_host empty_state (Inr [?row]) = (Inr [?row], ?st)"
    by (simp add: parseCSV_def empty_state_def spread_decoded_record)
  have "validateRows utc_host ?st [?row] =
      (Inr [?s], ?st\<lparr>idsDrawn := 1,
         transactions := (transactions ?st)(row_id ?s \<mapsto> convertToDBFormat ?s)\<rparr>)"
  proof (rule validateRows_single)
    show "firstRowKeys [?row] = REQUIRED_HEADERS"
      by (rule firstRowKeys_decoded_record)
    show "id_or_nanoid utc_host (idsDrawn ?st) ?row = (''a'', 1)"
      by (simp add: id_or_nanoid_with_id)
    show "process_row utc_host ''a'' ?row = Inr ?s"
      by (simp only: process_row_with_id process_row_scenario_A)
    show "transactions ?st (row_id ?s) = None"
      by (simp add: empty_state_def)
  qed
  with parsed show ?thesis
    by (simp add: handleParse_def empty_state_def getTransactionCount_def Object_keys_def
        decoded_record_def REQUIRED_HEADERS_def)
qed




text \<open>
  C7, as the code has it. Sanitizing is not idempotent: for every already sanitized
  row (the date in canonical form, the other columns trimmed) the sanitizer raises the
  RangeError of \<open>toISOString\<close>, because a canonical date has no slash and so no day
  and no year.
\<close>

theorem sanitizeRow_already_sanitized:
  assumes "already_sanitized row"
  shows "sanitizeRow h row = Inl RangeError"
proof -
  have "canonical_date (Transaction_Date row)"
    using assms by (simp add: already_sanitized_def)
  then have "\<not> three_numeric_components (Transaction_Date row)"
    by (intro one_piece_not_numeric canonical_date_no_slash)
  then show ?thesis
    by (rule sanitizeRow_not_numeric)
qed

lemma already_sanitized_scenario_A:
  "already_sanitized (sanitized_row ''n'' ''2024-01-15'' ''Grocery Store'')"
  by (simp add: already_sanitized_def sanitized_row_def canonical_date_def is_digit_def
      trims_of_record)

theorem sanitizeRow_already_sanitized_witness:
  "already_sanitized (sanitized_row ''n'' ''2024-01-15'' ''Grocery Store'')
   \<and> sanitizeRow utc_host (sanitized_row ''n'' ''2024-01-15'' ''Grocery Store'') = Inl RangeError"
  using already_sanitized_scenario_A
    sanitizeRow_already_sanitized [OF already_sanitized_scenario_A, of utc_host]
  by blast

text \<open>
  The claim C7 as stated fails on the sanitized row of Scenario A: it is the output of
  the sanitizer, it is already sanitized, and sanitizing it again does not return it.
\<close>

theorem sanitizeRow_twice_fails:
  "sanitizeRow utc_host (clean_row ''n'' (decoded_record ''01/15/2024'' ''Grocery Store''))
     = Inr (sanitized_row ''n'' ''2024-01-15'' ''Grocery Store'')
   \<and> already_sanitized (sanitized_row ''n'' ''2024-01-15'' ''Grocery Store'')
   \<and> sanitizeRow utc_host (sanitized_row ''n'' ''2024-01-15'' ''Grocery Store'')
       \<noteq> Inr (sanitized_row ''n'' ''2024-01-15'' ''Grocery Store'')"
proof -
  have "sanitizeRow utc_host (sanitized_row ''n'' ''2024-01-15'' ''Grocery Store'') = Inl RangeError"
    by (intro sanitizeRow_not_numeric one_piece_not_numeric)
      (simp add: sanitized_row_def)
  then show ?thesis
    by (simp add: sanitizeRow_scenario_A already_sanitized_scenario_A)
qed

section \<open>Identifiers\<close>

lemma map_of_set_property: "map_of (set_property k v obj) = (map_of obj)(k \<mapsto> v)"
  by (induction obj) (auto simp: fun_eq_iff)

lemma property_spread_other:
  "k \<notin> fst ` set src \<Longrightarrow> property (spread target src) k = property target k"
proof (induction src arbitrary: target)
  case Nil
  then show ?case by (simp add: spread_def)
next
  case (Cons p src)
  obtain k' v' where p: "p = (k', v')" by (cases p)
  with Cons.prems have "k \<noteq> k'" and "k \<notin> fst ` set src" by auto
  then have "property (spread (set_property k' v' target) src) k = property target k"
    using Cons.IH [of "set_property k' v' target"]
    by (simp add: property_def map_of_set_property)
  with p show ?case by (simp add: spread_def)
qed

text \<open>A decoded record without a column \<open>id\<close> leaves the decoder with the generated id.\<close>

lemma rowsWithId_ids:
  "list_all (\<lambda>rec. property rec ''id'' = None) data \<Longrightarrow>
   map (\<lambda>row. property row ''id'') (rowsWithId h n data)
     = map (\<lambda>k. Some (nanoid h k)) [n..<n + length data]"
proof (induction data arbitrary: n)
  case Nil
  then show ?case by simp
next
  case (Cons rec data)
  then have "''id'' \<notin> fst ` set rec"
    by (simp add: property_def map_of_eq_None_iff)
  then have "property (spread [(''id'', nanoid h n)] rec) ''id'' = Some (nanoid h n)"
    by (simp add: property_spread_other) (simp add: property_def)
  moreover have "map (\<lambda>row. property row ''id'') (rowsWithId h (Suc n) data)
      = map (\<lambda>k. Some (nanoid h k)) [Suc n..<Suc n + length data]"
    using Cons by simp
  moreover have "[n..<n + length (rec # data)] = n # [Suc n..<Suc n + length data]"
    by (simp add: upt_rec)
  ultimately show ?case by simp
qed

lemma length_rowsWithId: "length (rowsWithId h n data) = length data"
  by (induction data arbitrary: n) simp_all

















section \<open>The claim on identifiers\<close>




section \<open>Where the code departs from the claims\<close>

text \<open>
  C2. Two valid rows with the same id (a file with a column \<open>id\<close> has them): the
  second \<open>addTransaction\<close> fails with a ConstraintError, \<open>validateRows\<close> throws, and
  the first row stays in the store, because every row is stored in a transaction of
  its own. \<open>addTransactions\<close>, which the import does not call, leaves the store as it
  was on the same rows.
\<close>

theorem validateRows_keeps_rows_stored_before_the_failure:
  "getTransactionCount empty_state = 0
   \<and> fst (validateRows utc_host empty_state
         [(''id'', ''a'') # decoded_record ''01/15/2024'' ''Grocery Store'',
          (''id'', ''a'') # decoded_record ''01/15/2024'' ''Grocery Store''])
       = Inl (StoreFailed ConstraintError)
   \<and> getTransactionCount (snd (validateRows utc_host empty_state
         [(''id'', ''a'') # decoded_record ''01/15/2024'' ''Grocery Store'',
          (''id'', ''a'') # decoded_record ''01/15/2024'' ''Grocery Store''])) = 1
   \<and> addTransactions empty_state
         [sanitized_row ''a'' ''2024-01-15'' ''Grocery Store'',
          sanitized_row ''a'' ''2024-01-15'' ''Grocery Store'']
       = (Inl ConstraintError, empty_state)"
proof -
  let ?row = "(''id'', ''a'') # decoded_record ''01/15/2024'' ''Grocery Store''"
  let ?s = "sanitized_row ''a'' ''2024-01-15'' ''Grocery Store''"
  let ?st = "empty_state\<lparr>transactions := Map.empty(''a'' \<mapsto> convertToDBFormat ?s)\<rparr>"
  have row: "id_or_nanoid utc_host 0 ?row = (''a'', 0)" "process_row utc_host ''a'' ?row = Inr ?s"
    by (simp_all add: id_or_nanoid_with_id process_row_with_id process_row_scenario_A)
  have loop: "validate_loop utc_host 0 [?row, ?row] = (Inr [?s, ?s], 0)"
    by (simp add: row)
  have first: "addTransaction empty_state ?s = (Inr (), ?st)"
    by (simp add: addTransaction_def store_add_def convertToDBFormat_def row_id_sanitized_row
        empty_state_def)
  have second: "addTransaction ?st ?s = (Inl ConstraintError, ?st)"
    by (simp add: addTransaction_def store_add_def convertToDBFormat_def row_id_sanitized_row)
  have stored: "store_loop empty_state [?s, ?s] = (Inl (StoreFailed ConstraintError), ?st)"
    by (simp add: first second)
  have "validateRows utc_host empty_state [?row, ?row] = (Inl (StoreFailed ConstraintError), ?st)"
    using loop stored
    by (simp add: validateRows_def headers_ok_iff firstRowKeys_decoded_record
        empty_state_def)
  moreover have "add_all Map.empty [?s, ?s] = Inl ConstraintError"
    by (simp add: store_add_def convertToDBFormat_def row_id_sanitized_row)
  ultimately show ?thesis
    by (simp add: addTransactions_def getTransactionCount_def empty_state_def)
qed

text \<open>
  C5. The rule of Description 1 has \<open>allowEmpty = false\<close>, and yet \<open>checkType\<close>
  accepts the empty string for it, since every string passes the \<open>string\<close> type
  check: a row with an empty Description 1 is validated and stored.
\<close>

theorem empty_description_is_accepted:
  "map_of COLUMN_RULES ''Description 1'' = Some (TString, False)
   \<and> checkType utc_host [] TString False
   \<and> fst (handleParse utc_host empty_state (Inr [decoded_record ''01/15/2024'' []]))
       = Inr [sanitized_row ''n'' ''2024-01-15'' []]
   \<and> getTransactionCount
        (snd (handleParse utc_host empty_state (Inr [decoded_record ''01/15/2024'' []]))) = 1"
  by (simp add: COLUMN_RULES_def checkType_def
      handleParse_one_record [OF process_row_empty_description] getTransactionCount_def)

end
